theory Spec2Isabelle
  imports Complex_Main "HOL-Library.AList" "HOL-Library.Log_Nat"
begin

section \<open>Reconciliation of an inventory ledger: a shallow embedding of analyzer.py\<close>

text \<open>
  The script reads a ledger of dated entries, validates and enriches every entry, and
  then folds the entries into FIFO cost queues, reservation records, a per-reference
  ledger and two running totals. Each function of the script is a HOL function of the
  same name here. An exception of the script is a value \<open>Inl e\<close>; the global variables
  of the third pass are the fields of the record \<open>ledger\<close>, passed in and returned.

  The passes are given first with Python's \<open>float\<close> values modelled by \<open>real\<close>: sums and
  products are exact, there is no rounding, no infinity and no NaN. The third pass, whose
  running sums depend on the rounding, is then given a second time over IEEE 754 binary64
  values (\<open>ledger64\<close>, \<open>pass3_64\<close>), and the properties of its sums are stated about that one. Strings are lists of characters with code points
  below 256. Python's \<open>dict\<close> keeps insertion order, so a dictionary is an association
  list with distinct keys: \<open>map_of\<close> reads it, \<open>AList.update\<close> stores into it (in place for
  an old key, at the end for a new one), \<open>AList.delete\<close> pops a key.
\<close>

subsection \<open>Exceptions\<close>

datatype error =
    InvalidCurrencyFormat           \<comment> \<open>line 51, ValueError\<close>
  | FloatError                      \<comment> \<open>ValueError of \<open>float(...)\<close>\<close>
  | IntError                        \<comment> \<open>ValueError of \<open>int(...)\<close>\<close>
  | RateLookupFailed                \<comment> \<open>lines 59 to 66: the rate file could not be fetched or read\<close>
  | InvalidCurrency                 \<comment> \<open>line 72, ValueError\<close>
  | ZeroDivisionError               \<comment> \<open>line 74, a rate of zero\<close>
  | InvalidItems                    \<comment> \<open>line 95, ValueError\<close>
  | AttributeError                  \<comment> \<open>line 100, \<open>.group\<close> of \<open>None\<close>\<close>
  | UnpackError                     \<comment> \<open>line 128, no colon in the line\<close>
  | IndexError                      \<comment> \<open>line 136 (a field without a value) and line 250 (an empty queue)\<close>
  | InvalidAction                   \<comment> \<open>line 147\<close>
  | MissingField string             \<comment> \<open>line 152\<close>
  | WrongDateFormat                 \<comment> \<open>line 157\<close>
  | WrongDateValue                  \<comment> \<open>line 161\<close>
  | NonChronological                \<comment> \<open>line 164\<close>
  | InvalidType                     \<comment> \<open>line 169\<close>
  | InvalidProject                  \<comment> \<open>line 173\<close>
  | InvalidItemsValue               \<comment> \<open>line 177\<close>
  | UnrecognizedField string        \<comment> \<open>line 186\<close>
  | InvalidCurrencyLine             \<comment> \<open>line 195\<close>
  | InvalidQuantity                 \<comment> \<open>line 201\<close>
  | MaterialIncomplete              \<comment> \<open>line 212\<close>
  | KeyError string                 \<comment> \<open>a subscript with a key the dictionary does not have\<close>
  | TypeError                       \<comment> \<open>an operation on a value of the wrong Python type\<close>
  | DuplicatedReserve               \<comment> \<open>line 272\<close>
  | OverRelease                     \<comment> \<open>line 239\<close>
  | OverflowError                   \<comment> \<open>line 269, a repetition count that is no index; an \<open>int\<close> too large for a float\<close>

subsection \<open>Characters and the string methods the script calls\<close>

definition is_digit :: "char \<Rightarrow> bool" where
  "is_digit c = (c \<in> set ''0123456789'')"

definition is_alpha :: "char \<Rightarrow> bool" where
  \<comment> \<open>the class \<open>[A-Za-z]\<close>\<close>
  "is_alpha c = (c \<in> set ''ABCDEFGHIJKLMNOPQRSTUVWXYZabcdefghijklmnopqrstuvwxyz'')"

definition is_space :: "char \<Rightarrow> bool" where
  \<comment> \<open>\<open>str.isspace\<close> on code points below 256: 9 to 13, 28 to 32, 133 and 160\<close>
  "is_space c = (of_char c \<in> {9, 10, 11, 12, 13, 28, 29, 30, 31, 32, 133, 160 :: nat})"

definition strip :: "string \<Rightarrow> string" where
  "strip s = rev (dropWhile is_space (rev (dropWhile is_space s)))"

definition upper :: "string \<Rightarrow> string" where
  \<comment> \<open>\<open>str.upper\<close>; the script calls it on currency codes only, three letters of \<open>[A-Za-z]\<close>\<close>
  "upper s = map (\<lambda>c. case map_of (zip ''abcdefghijklmnopqrstuvwxyz'' ''ABCDEFGHIJKLMNOPQRSTUVWXYZ'') c
                       of None \<Rightarrow> c | Some u \<Rightarrow> u) s"

fun split_ws_acc :: "string \<Rightarrow> string \<Rightarrow> string list" where
  \<comment> \<open>\<open>str.split()\<close>: the maximal runs without whitespace; the first argument is the run being read\<close>
  "split_ws_acc w [] = (if w = [] then [] else [w])"
| "split_ws_acc w (c # cs) =
     (if is_space c then (if w = [] then split_ws_acc [] cs else w # split_ws_acc [] cs)
      else split_ws_acc (w @ [c]) cs)"

definition split_ws :: "string \<Rightarrow> string list" where
  "split_ws s = split_ws_acc [] s"

fun split_on :: "char \<Rightarrow> string \<Rightarrow> string list" where
  \<comment> \<open>\<open>s.split(sep)\<close> for a one-character separator: one more piece than separators\<close>
  "split_on sep [] = [[]]"
| "split_on sep (c # cs) =
     (if c = sep then [] # split_on sep cs
      else (case split_on sep cs of [] \<Rightarrow> [[c]] | p # ps \<Rightarrow> (c # p) # ps))"

definition split_once :: "char \<Rightarrow> string \<Rightarrow> string list" where
  \<comment> \<open>\<open>s.split(sep, 1)\<close>: two pieces when the separator occurs, else the string alone\<close>
  "split_once sep s =
     (if sep \<in> set s then [takeWhile (\<lambda>c. c \<noteq> sep) s, tl (dropWhile (\<lambda>c. c \<noteq> sep) s)]
      else [s])"

fun find_sub :: "string \<Rightarrow> string \<Rightarrow> nat option" where
  \<comment> \<open>\<open>s.find(sub)\<close>, \<open>None\<close> for -1\<close>
  "find_sub sub [] = (if sub = [] then Some 0 else None)"
| "find_sub sub (c # cs) =
     (if take (length sub) (c # cs) = sub then Some 0
      else map_option Suc (find_sub sub cs))"

definition endswith :: "string \<Rightarrow> string \<Rightarrow> bool" where
  "endswith s suf = (length suf \<le> length s \<and> drop (length s - length suf) s = suf)"

definition startswith :: "string \<Rightarrow> string \<Rightarrow> bool" where
  "startswith s pre = (take (length pre) s = pre)"

fun str_less :: "string \<Rightarrow> string \<Rightarrow> bool" where
  \<comment> \<open>\<open>a < b\<close> on \<open>str\<close>: lexicographic by code point, a proper prefix is smaller\<close>
  "str_less [] [] = False"
| "str_less [] (b # bs) = True"
| "str_less (a # as) [] = False"
| "str_less (a # as) (b # bs) =
     ((of_char a :: nat) < of_char b \<or> (a = b \<and> str_less as bs))"

subsection \<open>The built-in conversions \<open>int\<close> and \<open>float\<close>\<close>

definition digit_val :: "char \<Rightarrow> nat" where
  "digit_val c = (case map_of (zip ''0123456789'' [0, 1, 2, 3, 4, 5, 6, 7, 8, 9]) c
                  of None \<Rightarrow> 0 | Some d \<Rightarrow> d)"

definition digits_value :: "string \<Rightarrow> nat" where
  "digits_value ds = foldl (\<lambda>n c. 10 * n + digit_val c) 0 ds"

fun digitpart_rest :: "string \<Rightarrow> string \<times> string" where
  \<comment> \<open>after a first digit: more digits, each with at most one underscore before it\<close>
  "digitpart_rest [] = ([], [])"
| "digitpart_rest [c] = (if is_digit c then ([c], []) else ([], [c]))"
| "digitpart_rest (c # d # cs) =
     (if is_digit c then (case digitpart_rest (d # cs) of (ds, r) \<Rightarrow> (c # ds, r))
      else if c = CHR ''_'' \<and> is_digit d then (case digitpart_rest cs of (ds, r) \<Rightarrow> (d # ds, r))
      else ([], c # d # cs))"

definition digitpart :: "string \<Rightarrow> (string \<times> string) option" where
  \<comment> \<open>the grammar's \<open>digitpart\<close> at the start of the string: its digits and what follows it\<close>
  "digitpart s =
     (case s of [] \<Rightarrow> None
      | c # cs \<Rightarrow> if is_digit c then (case digitpart_rest cs of (ds, r) \<Rightarrow> Some (c # ds, r))
                  else None)"

definition sign_of :: "string \<Rightarrow> bool \<times> string" where
  \<comment> \<open>an optional sign: whether it is a minus, and what follows it\<close>
  "sign_of s =
     (case s of [] \<Rightarrow> (False, [])
      | c # cs \<Rightarrow> if c = CHR ''-'' then (True, cs) else if c = CHR ''+'' then (False, cs)
                  else (False, c # cs))"

definition max_str_digits :: nat where
  \<comment> \<open>the default of \<open>sys.get_int_max_str_digits()\<close>\<close>
  "max_str_digits = 4300"

definition py_int :: "string \<Rightarrow> int option" where
  \<comment> \<open>\<open>int(s)\<close> in base 10; \<open>None\<close> is the ValueError\<close>
  "py_int s =
     (case sign_of (strip s) of (neg, body) \<Rightarrow>
        (case digitpart body of
           None \<Rightarrow> None
         | Some (ds, r) \<Rightarrow>
             if r \<noteq> [] \<or> max_str_digits < length ds then None
             else Some (if neg then - int (digits_value ds) else int (digits_value ds))))"

definition number_of :: "string \<Rightarrow> (string \<times> string \<times> string) option" where
  \<comment> \<open>the grammar's \<open>number\<close>: integer digits, fraction digits, and what follows\<close>
  "number_of s =
     (case digitpart s of
        Some (ip, r) \<Rightarrow>
          (case r of
             [] \<Rightarrow> Some (ip, [], [])
           | c # r' \<Rightarrow>
               if c = CHR ''.'' then
                 (case digitpart r' of None \<Rightarrow> Some (ip, [], r') | Some (fp, r'') \<Rightarrow> Some (ip, fp, r''))
               else Some (ip, [], r))
      | None \<Rightarrow>
          (case s of
             [] \<Rightarrow> None
           | c # r' \<Rightarrow>
               if c = CHR ''.'' then
                 (case digitpart r' of None \<Rightarrow> None | Some (fp, r'') \<Rightarrow> Some ([], fp, r''))
               else None))"

definition exponent_of :: "string \<Rightarrow> int option" where
  \<comment> \<open>what follows the number: nothing, or \<open>e\<close>, an optional sign and a \<open>digitpart\<close>\<close>
  "exponent_of r =
     (case r of
        [] \<Rightarrow> Some 0
      | c # r' \<Rightarrow>
          if c = CHR ''e'' \<or> c = CHR ''E'' then
            (case sign_of r' of (neg, body) \<Rightarrow>
               (case digitpart body of
                  None \<Rightarrow> None
                | Some (ds, r'') \<Rightarrow>
                    if r'' \<noteq> [] then None
                    else Some (if neg then - int (digits_value ds) else int (digits_value ds))))
          else None)"

definition py_float :: "string \<Rightarrow> real option" where
  \<comment> \<open>\<open>float(s)\<close> on a decimal literal; \<open>None\<close> is the ValueError. The words \<open>inf\<close>,
      \<open>infinity\<close> and \<open>nan\<close>, which Python accepts, have no value in \<open>real\<close> and give
      \<open>None\<close> here as well.\<close>
  "py_float s =
     (case sign_of (strip s) of (neg, body) \<Rightarrow>
        (case number_of body of
           None \<Rightarrow> None
         | Some (ip, fp, r) \<Rightarrow>
             (case exponent_of r of
                None \<Rightarrow> None
              | Some e \<Rightarrow>
                  let m = real (digits_value (ip @ fp)) / 10 ^ length fp;
                      v = (if 0 \<le> e then m * 10 ^ nat e else m / 10 ^ nat (- e))
                  in Some (if neg then - v else v))))"

subsection \<open>Currency conversion\<close>

type_synonym rate_provider = "string \<Rightarrow> (string \<rightharpoonup> real) option"
  \<comment> \<open>lines 59 to 66: the \<open>rates\<close> table of the cache file of a date, fetched on a miss;
      \<open>None\<close> when the file can be neither fetched nor read\<close>

definition match_amount :: "string \<Rightarrow> (string \<times> string) option" where
  \<comment> \<open>\<open>re.match("([A-Za-z]{3})([0-9.]+)", amount)\<close>: the two groups\<close>
  "match_amount a =
     (let g1 = take 3 a; g2 = takeWhile (\<lambda>c. is_digit c \<or> c = CHR ''.'') (drop 3 a)
      in if length g1 = 3 \<and> list_all is_alpha g1 \<and> g2 \<noteq> [] then Some (g1, g2) else None)"

definition convert_to_usd :: "rate_provider \<Rightarrow> string \<Rightarrow> string \<Rightarrow> error + real" where
  "convert_to_usd rates date amount0 =
     (let amount = strip amount0 in
      case (if amount = ''0'' then Inr (''USD'', 0)
            else (case match_amount amount of
                    None \<Rightarrow> Inl InvalidCurrencyFormat
                  | Some (g1, g2) \<Rightarrow>
                      (case py_float g2 of None \<Rightarrow> Inl FloatError | Some v \<Rightarrow> Inr (g1, v))))
      of Inl e \<Rightarrow> Inl e
       | Inr (currency0, amount_value) \<Rightarrow>
           let currency = (if currency0 = ''RMB'' then ''CNY'' else currency0) in
           (case rates date of
              None \<Rightarrow> Inl RateLookupFailed
            | Some exchange_rate \<Rightarrow>
                if upper currency = ''USD'' then Inr amount_value
                else (case exchange_rate (upper currency) of
                        None \<Rightarrow> Inl InvalidCurrency
                      | Some rate \<Rightarrow>
                          if rate = 0 then Inl ZeroDivisionError
                          else Inr (amount_value / rate))))"

definition compute_value :: "rate_provider \<Rightarrow> string \<Rightarrow> string \<Rightarrow> string \<Rightarrow> bool \<Rightarrow> error + real" where
  "compute_value rates date amount fee income =
     (case convert_to_usd rates date amount of
        Inl e \<Rightarrow> Inl e
      | Inr amount_value \<Rightarrow>
          (case (if endswith fee ''%''
                 then (case py_float (butlast fee) of
                         None \<Rightarrow> Inl FloatError
                       | Some p \<Rightarrow> Inr (amount_value * p / 100))
                 else convert_to_usd rates date fee)
           of Inl e \<Rightarrow> Inl e
            | Inr fee_value \<Rightarrow>
                if income then Inr (amount_value - fee_value)
                else Inr (amount_value + fee_value)))"

subsection \<open>Items and reference keys\<close>

definition match_item :: "string \<Rightarrow> (string \<times> string) option" where
  \<comment> \<open>\<open>re.match("([A-Za-z]+)([0-9]+)", item)\<close>: the two groups\<close>
  "match_item item =
     (let g1 = takeWhile is_alpha item; g2 = takeWhile is_digit (dropWhile is_alpha item)
      in if g1 \<noteq> [] \<and> g2 \<noteq> [] then Some (g1, g2) else None)"

fun parse_items_loop :: "(string \<times> int) list \<Rightarrow> string list \<Rightarrow> error + (string \<times> int) list" where
  "parse_items_loop ret [] = Inr ret"
| "parse_items_loop ret (item # rest) =
     (case match_item item of
        None \<Rightarrow> Inl InvalidItems
      | Some (g1, g2) \<Rightarrow>
          (case py_int g2 of
             None \<Rightarrow> Inl IntError
           | Some q \<Rightarrow> parse_items_loop (AList.update g1 q ret) rest))"

definition parse_items :: "string \<Rightarrow> error + (string \<times> int) list" where
  "parse_items items = parse_items_loop [] (split_ws items)"

definition is_ref_char :: "char \<Rightarrow> bool" where
  \<comment> \<open>the class \<open>[0-9-_]\<close>: a digit, a hyphen or an underscore\<close>
  "is_ref_char c = (is_digit c \<or> c = CHR ''-'' \<or> c = CHR ''_'')"

definition match_ref :: "string \<Rightarrow> string option" where
  \<comment> \<open>\<open>re.match("([0-9-_]+)[A-Za-z]*", s)\<close>: group 1, the longest run of the class at
      the start, which must not be empty; the letters after it are optional\<close>
  "match_ref s = (let g1 = takeWhile is_ref_char s in if g1 \<noteq> [] then Some g1 else None)"

definition remove_suffix :: "string \<Rightarrow> error + string" where
  "remove_suffix s =
     (if s \<noteq> [] then (case match_ref s of None \<Rightarrow> Inl AttributeError | Some g1 \<Rightarrow> Inr g1)
      else Inr [])"

subsection \<open>The tables of actions, types and items\<close>

definition AVAILABLE_ACTIONS :: "(string \<times> string list \<times> string list) list" where
  \<comment> \<open>for each action, its required and its optional fields\<close>
  "AVAILABLE_ACTIONS =
     [(''OBTAIN'', [''DATE'', ''TYPE'', ''PROJECT'', ''QUANTITY'', ''COSTEACH''], [''BATCH'', ''REMARKS'']),
      (''RESERVE'', [''DATE'', ''REF'', ''ITEMS''], [''REMARKS'']),
      (''RELEASE'', [''DATE'', ''TYPE'', ''REF'', ''ITEMS''], [''REMARKS'']),
      (''INCOME'', [''DATE'', ''TYPE'', ''AMOUNT'', ''FEE''], [''REF'', ''REMARKS'']),
      (''EXPENSE'', [''DATE'', ''TYPE'', ''AMOUNT'', ''FEE''],
         [''PROJECT'', ''BATCH'', ''SUPPLIER'', ''REF'', ''REMARKS''])]"

definition AVAILABLE_TYPES :: "(string \<times> string list) list" where
  "AVAILABLE_TYPES =
     [(''OBTAIN'', [''assembled'', ''returned'', ''repaired'']),
      (''RELEASE'', [''sales'', ''gift'', ''replacement'', ''giveaway'', ''scrap'']),
      (''INCOME'', [''sales'', ''donation'']),
      (''EXPENSE'', [''R&D'', ''material'', ''shipping'', ''replacement'', ''reimbursement'', ''refund''])]"

definition AVAILABLE_ITEMS :: "string list" where
  "AVAILABLE_ITEMS = [''ilonena'', ''ilomusiali'']"

subsection \<open>Pass 1: the lines of the record file become the data table\<close>

type_synonym raw_entry = "(string \<times> string) list"

definition has_key :: "('k \<times> 'v) list \<Rightarrow> 'k \<Rightarrow> bool" where
  \<comment> \<open>\<open>k in d\<close>\<close>
  "has_key d k = (map_of d k \<noteq> None)"

definition parse_field :: "string \<Rightarrow> error + (string \<times> string)" where
  \<comment> \<open>\<open>i.split(' ',1)[0].strip()\<close> and \<open>i.split(' ',1)[1].strip()\<close>\<close>
  "parse_field i =
     (case split_once CHR '' '' i of
        [k, v] \<Rightarrow> Inr (strip k, strip v)
      | _ \<Rightarrow> Inl IndexError)"

fun fields_dict :: "raw_entry \<Rightarrow> string list \<Rightarrow> error + raw_entry" where
  \<comment> \<open>the dictionary comprehension of line 136\<close>
  "fields_dict d [] = Inr d"
| "fields_dict d (i # rest) =
     (case parse_field i of
        Inl e \<Rightarrow> Inl e
      | Inr (k, v) \<Rightarrow> fields_dict (AList.update k v d) rest)"

definition dict_merge :: "('k \<times> 'v) list \<Rightarrow> ('k \<times> 'v) list \<Rightarrow> ('k \<times> 'v) list" where
  \<comment> \<open>\<open>a | b\<close> on dictionaries\<close>
  "dict_merge a b = foldl (\<lambda>d (k, v). AList.update k v d) a b"

definition parse_line :: "string \<Rightarrow> error + raw_entry option" where
  \<comment> \<open>the body of the loop of lines 124 to 136; \<open>Inr None\<close> is \<open>continue\<close>\<close>
  "parse_line raw =
     (let line = filter (\<lambda>c. c \<noteq> CHR 0x0A) raw in
      if line = [] \<or> startswith line ''#'' then Inr None
      else
        (case split_once CHR '':'' line of
           [action, fields] \<Rightarrow>
             (let flds =
                (case find_sub ''REMARKS'' fields of
                   Some remarks_index \<Rightarrow>
                     filter (\<lambda>i. i \<noteq> [])
                       (map strip (split_on CHR '','' (take remarks_index fields)))
                     @ [drop remarks_index fields]
                 | None \<Rightarrow> map strip (split_on CHR '','' fields))
              in (case fields_dict [] flds of
                    Inl e \<Rightarrow> Inl e
                  | Inr d \<Rightarrow> Inr (Some (dict_merge [(''ACTION'', action)] d))))
         | _ \<Rightarrow> Inl UnpackError))"

fun pass1 :: "string list \<Rightarrow> error + raw_entry list" where
  \<comment> \<open>the argument is what \<open>f.readlines()\<close> returns\<close>
  "pass1 [] = Inr []"
| "pass1 (l # ls) =
     (case parse_line l of
        Inl e \<Rightarrow> Inl e
      | Inr None \<Rightarrow> pass1 ls
      | Inr (Some d) \<Rightarrow>
          (case pass1 ls of Inl e \<Rightarrow> Inl e | Inr t \<Rightarrow> Inr (d # t)))"

subsection \<open>Pass 2: validation, optional fields, currency conversion\<close>

datatype pyval = VStr string | VFloat real | VInt int

type_synonym entry = "(string \<times> pyval) list"

definition match_date :: "string \<Rightarrow> (string \<times> string \<times> string) option" where
  \<comment> \<open>\<open>re.match("([0-9]{4})-([0-9]{2})-([0-9]{2})", date)\<close>: the three groups\<close>
  "match_date s =
     (let y = take 4 s; s1 = drop 4 s; m = take 2 (drop 1 s1); s2 = drop 3 s1;
          d = take 2 (drop 1 s2)
      in if length y = 4 \<and> list_all is_digit y \<and> take 1 s1 = ''-''
            \<and> length m = 2 \<and> list_all is_digit m \<and> take 1 s2 = ''-''
            \<and> length d = 2 \<and> list_all is_digit d
         then Some (y, m, d) else None)"

definition is_leap :: "nat \<Rightarrow> bool" where
  "is_leap y = (y mod 4 = 0 \<and> (y mod 100 \<noteq> 0 \<or> y mod 400 = 0))"

definition days_in_month :: "nat \<Rightarrow> nat \<Rightarrow> nat" where
  "days_in_month y m =
     (if m = 2 then (if is_leap y then 29 else 28)
      else if m = 4 \<or> m = 6 \<or> m = 9 \<or> m = 11 then 30 else 31)"

definition valid_datetime :: "nat \<Rightarrow> nat \<Rightarrow> nat \<Rightarrow> bool" where
  \<comment> \<open>\<open>datetime.datetime(y, m, d)\<close> does not raise\<close>
  "valid_datetime y m d =
     (1 \<le> y \<and> y \<le> 9999 \<and> 1 \<le> m \<and> m \<le> 12 \<and> 1 \<le> d \<and> d \<le> days_in_month y m)"

definition check_type :: "string \<Rightarrow> raw_entry \<Rightarrow> error option" where
  \<comment> \<open>line 168; \<open>AVAILABLE_TYPES\<close> has no key RESERVE\<close>
  "check_type action line =
     (case map_of line ''TYPE'' of
        None \<Rightarrow> None
      | Some t \<Rightarrow>
          (case map_of AVAILABLE_TYPES action of
             None \<Rightarrow> Some (KeyError action)
           | Some ts \<Rightarrow> if t \<notin> set ts then Some InvalidType else None))"

definition check_project :: "raw_entry \<Rightarrow> error option" where
  "check_project line =
     (case map_of line ''PROJECT'' of
        None \<Rightarrow> None
      | Some p \<Rightarrow> if p \<notin> set AVAILABLE_ITEMS then Some InvalidProject else None)"

definition check_items :: "raw_entry \<Rightarrow> error option" where
  "check_items line =
     (case map_of line ''ITEMS'' of
        None \<Rightarrow> None
      | Some its \<Rightarrow>
          (case parse_items its of
             Inl e \<Rightarrow> Some e
           | Inr d \<Rightarrow>
               if sum_list (map (\<lambda>i. if i \<in> set AVAILABLE_ITEMS then 0 else 1 :: nat) (map fst d)) \<noteq> 0
               then Some InvalidItemsValue else None))"

definition fill_optional :: "string list \<Rightarrow> raw_entry \<Rightarrow> raw_entry" where
  "fill_optional optional line =
     foldl (\<lambda>l f. if has_key l f then l else AList.update f [] l) line optional"

definition stage_A :: "string \<Rightarrow> raw_entry \<Rightarrow> error + (string \<times> string \<times> raw_entry)" where
  \<comment> \<open>lines 145 to 186: the action, the date and the entry with its optional fields filled\<close>
  "stage_A last_date line =
     (case map_of line ''ACTION'' of
        None \<Rightarrow> Inl (KeyError ''ACTION'')
      | Some action \<Rightarrow>
     (case map_of AVAILABLE_ACTIONS action of
        None \<Rightarrow> Inl InvalidAction
      | Some (required, optional) \<Rightarrow>
     (case find (\<lambda>f. \<not> has_key line f) required of
        Some f \<Rightarrow> Inl (MissingField f)
      | None \<Rightarrow>
     (case map_of line ''DATE'' of
        None \<Rightarrow> Inl (KeyError ''DATE'')
      | Some date \<Rightarrow>
     (case match_date date of
        None \<Rightarrow> Inl WrongDateFormat
      | Some (y, m, d) \<Rightarrow>
          if \<not> valid_datetime (digits_value y) (digits_value m) (digits_value d)
          then Inl WrongDateValue
          else if str_less date last_date then Inl NonChronological
          else
     (case check_type action line of
        Some e \<Rightarrow> Inl e
      | None \<Rightarrow>
     (case check_project line of
        Some e \<Rightarrow> Inl e
      | None \<Rightarrow>
     (case check_items line of
        Some e \<Rightarrow> Inl e
      | None \<Rightarrow>
          (let line' = fill_optional optional line in
           case find (\<lambda>f. f \<notin> set ([''ACTION''] @ required @ optional)) (map fst line') of
             Some f \<Rightarrow> Inl (UnrecognizedField f)
           | None \<Rightarrow> Inr (action, date, line'))))))))))"

definition convert_costeach :: "rate_provider \<Rightarrow> string \<Rightarrow> raw_entry \<Rightarrow> entry \<Rightarrow> error + entry" where
  \<comment> \<open>lines 191 to 195\<close>
  "convert_costeach rates date line l =
     (case map_of line ''COSTEACH'' of
        None \<Rightarrow> Inr l
      | Some c \<Rightarrow>
          (case convert_to_usd rates date c of
             Inl e \<Rightarrow> Inl InvalidCurrencyLine
           | Inr v \<Rightarrow> Inr (AList.update ''COSTEACH'' (VFloat v) l)))"

definition convert_quantity :: "raw_entry \<Rightarrow> entry \<Rightarrow> error + entry" where
  \<comment> \<open>lines 197 to 201\<close>
  "convert_quantity line l =
     (case map_of line ''QUANTITY'' of
        None \<Rightarrow> Inr l
      | Some q \<Rightarrow>
          (case py_int q of
             None \<Rightarrow> Inl InvalidQuantity
           | Some n \<Rightarrow> Inr (AList.update ''QUANTITY'' (VInt n) l)))"

definition add_value :: "rate_provider \<Rightarrow> string \<Rightarrow> string \<Rightarrow> raw_entry \<Rightarrow> entry \<Rightarrow> error + entry" where
  \<comment> \<open>lines 203 to 206\<close>
  "add_value rates action date line l =
     (if action = ''INCOME'' \<or> action = ''EXPENSE'' then
        (case map_of line ''AMOUNT'' of
           None \<Rightarrow> Inl (KeyError ''AMOUNT'')
         | Some amount \<Rightarrow>
        (case map_of line ''FEE'' of
           None \<Rightarrow> Inl (KeyError ''FEE'')
         | Some fee \<Rightarrow>
        (case compute_value rates date amount fee (action = ''INCOME'') of
           Inl e \<Rightarrow> Inl e
         | Inr v \<Rightarrow> Inr (AList.update ''VALUE'' (VFloat v) l))))
      else Inr l)"

definition stage_B :: "rate_provider \<Rightarrow> string \<Rightarrow> string \<Rightarrow> raw_entry \<Rightarrow> error + entry" where
  \<comment> \<open>lines 191 to 206\<close>
  "stage_B rates action date line =
     (case convert_costeach rates date line (map (\<lambda>(k, v). (k, VStr v)) line) of
        Inl e \<Rightarrow> Inl e
      | Inr l1 \<Rightarrow>
     (case convert_quantity line l1 of
        Inl e \<Rightarrow> Inl e
      | Inr l2 \<Rightarrow> add_value rates action date line l2))"

definition stage_C :: "string \<Rightarrow> raw_entry \<Rightarrow> error option" where
  \<comment> \<open>line 211; the three fields are optional ones of EXPENSE, filled in stage A\<close>
  "stage_C action line =
     (if action = ''EXPENSE'' \<and> map_of line ''TYPE'' = Some ''material''
         \<and> (map_of line ''PROJECT'' = Some [] \<or> map_of line ''BATCH'' = Some []
            \<or> map_of line ''SUPPLIER'' = Some [])
      then Some MaterialIncomplete else None)"

definition validate_line :: "rate_provider \<Rightarrow> string \<Rightarrow> raw_entry \<Rightarrow> error + (string \<times> entry)" where
  \<comment> \<open>the body of the loop of pass 2: the new \<open>last_date\<close> and the enriched entry\<close>
  "validate_line rates last_date line =
     (case stage_A last_date line of
        Inl e \<Rightarrow> Inl e
      | Inr (action, date, line') \<Rightarrow>
     (case stage_B rates action date line' of
        Inl e \<Rightarrow> Inl e
      | Inr l \<Rightarrow>
     (case stage_C action line' of
        Some e \<Rightarrow> Inl e
      | None \<Rightarrow> Inr (date, l))))"

fun pass2_loop :: "rate_provider \<Rightarrow> string \<Rightarrow> raw_entry list \<Rightarrow> error + entry list" where
  "pass2_loop rates last_date [] = Inr []"
| "pass2_loop rates last_date (line # rest) =
     (case validate_line rates last_date line of
        Inl e \<Rightarrow> Inl e
      | Inr (last_date', l) \<Rightarrow>
          (case pass2_loop rates last_date' rest of
             Inl e \<Rightarrow> Inl e
           | Inr t \<Rightarrow> Inr (l # t)))"

definition pass2 :: "rate_provider \<Rightarrow> raw_entry list \<Rightarrow> error + entry list" where
  "pass2 rates data_table = pass2_loop rates ''0000-00-00'' data_table"

subsection \<open>Pass 3: the ledger state and its helpers\<close>

record reservation =
  items :: "(string \<times> int) list"
  remarks :: "pyval option"

record ledger =
  item_cost :: "(string \<times> real list) list"
  ref_value :: "(string \<times> real) list"
  reserved_items_counter :: "(string \<times> reservation) list"
  cash_flow :: real
  profit :: real

definition ledger0 :: ledger where
  \<comment> \<open>lines 217 to 221\<close>
  "ledger0 =
     \<lparr>item_cost = map (\<lambda>p. (p, [])) AVAILABLE_ITEMS, ref_value = [([], 0)],
      reserved_items_counter = [], cash_flow = 0, profit = 0\<rparr>"

definition get_str :: "entry \<Rightarrow> string \<Rightarrow> error + string" where
  \<comment> \<open>\<open>line[k]\<close> where the script uses it as a string\<close>
  "get_str line k =
     (case map_of line k of
        None \<Rightarrow> Inl (KeyError k)
      | Some (VStr s) \<Rightarrow> Inr s
      | Some _ \<Rightarrow> Inl TypeError)"

definition get_num :: "entry \<Rightarrow> string \<Rightarrow> error + real" where
  \<comment> \<open>\<open>line[k]\<close> where the script uses it as a number\<close>
  "get_num line k =
     (case map_of line k of
        None \<Rightarrow> Inl (KeyError k)
      | Some (VFloat v) \<Rightarrow> Inr v
      | Some (VInt n) \<Rightarrow> Inr (real_of_int n)
      | Some _ \<Rightarrow> Inl TypeError)"

definition get_int :: "entry \<Rightarrow> string \<Rightarrow> error + int" where
  \<comment> \<open>\<open>line[k]\<close> where the script uses it as a repetition count\<close>
  "get_int line k =
     (case map_of line k of
        None \<Rightarrow> Inl (KeyError k)
      | Some (VInt n) \<Rightarrow> Inr n
      | Some _ \<Rightarrow> Inl TypeError)"

fun add_reserved_loop ::
  "string \<Rightarrow> pyval option \<Rightarrow> (string \<times> int) list \<Rightarrow> (string \<times> reservation) list
     \<Rightarrow> (string \<times> reservation) list" where
  "add_reserved_loop ref rem [] rc = rc"
| "add_reserved_loop ref rem ((item_name, quantity) # rest) rc =
     (let r = (case map_of rc ref of
                 None \<Rightarrow> \<lparr>items = [], remarks = rem\<rparr>
               | Some r \<Rightarrow> r)
      in add_reserved_loop ref rem rest
           (AList.update ref (r\<lparr>items := AList.update item_name quantity (items r)\<rparr>) rc))"

definition add_reserved_inventory ::
  "(string \<times> reservation) list \<Rightarrow> string \<Rightarrow> string \<Rightarrow> pyval option
     \<Rightarrow> error + (string \<times> reservation) list" where
  "add_reserved_inventory rc ref its rem =
     (case parse_items its of
        Inl e \<Rightarrow> Inl e
      | Inr parsed \<Rightarrow> Inr (add_reserved_loop ref rem parsed rc))"

fun take_reserved_loop ::
  "string \<Rightarrow> (string \<times> int) list \<Rightarrow> (string \<times> reservation) list
     \<Rightarrow> error + (string \<times> reservation) list" where
  "take_reserved_loop ref [] rc = Inr rc"
| "take_reserved_loop ref ((item_name, quantity) # rest) rc =
     (case map_of rc ref of
        None \<Rightarrow> Inl (KeyError ref)
      | Some r \<Rightarrow>
          (case map_of (items r) item_name of
             None \<Rightarrow> Inl (KeyError item_name)
           | Some old \<Rightarrow>
               if old - quantity = 0 then
                 take_reserved_loop ref rest
                   (AList.update ref (r\<lparr>items := AList.delete item_name (items r)\<rparr>) rc)
               else if old - quantity < 0 then Inl OverRelease
               else
                 take_reserved_loop ref rest
                   (AList.update ref
                      (r\<lparr>items := AList.update item_name (old - quantity) (items r)\<rparr>) rc)))"

definition take_reserved_inventory ::
  "(string \<times> reservation) list \<Rightarrow> string \<Rightarrow> string \<Rightarrow> error + (string \<times> reservation) list" where
  "take_reserved_inventory rc ref its =
     (case parse_items its of
        Inl e \<Rightarrow> Inl e
      | Inr parsed \<Rightarrow> take_reserved_loop ref parsed rc)"

fun take_units ::
  "string \<Rightarrow> nat \<Rightarrow> real \<times> (string \<times> real list) list
     \<Rightarrow> error + (real \<times> (string \<times> real list) list)" where
  \<comment> \<open>the loop of lines 249 to 251 over \<open>range(quantity)\<close>\<close>
  "take_units item_name 0 (tot, ic) = Inr (tot, ic)"
| "take_units item_name (Suc n) (tot, ic) =
     (case map_of ic item_name of
        None \<Rightarrow> Inl (KeyError item_name)
      | Some [] \<Rightarrow> Inl IndexError
      | Some (c # cs) \<Rightarrow> take_units item_name n (tot + c, AList.update item_name cs ic))"

fun take_items_loop ::
  "(string \<times> int) list \<Rightarrow> real \<times> (string \<times> real list) list
     \<Rightarrow> error + (real \<times> (string \<times> real list) list)" where
  "take_items_loop [] acc = Inr acc"
| "take_items_loop ((item_name, quantity) # rest) acc =
     (case take_units item_name (nat quantity) acc of
        Inl e \<Rightarrow> Inl e
      | Inr acc' \<Rightarrow> take_items_loop rest acc')"

definition take_item_and_compute_cost ::
  "(string \<times> real list) list \<Rightarrow> string \<Rightarrow> error + (real \<times> (string \<times> real list) list)" where
  \<comment> \<open>the total and the new \<open>item_cost\<close>\<close>
  "take_item_and_compute_cost ic its =
     (case parse_items its of
        Inl e \<Rightarrow> Inl e
      | Inr parsed \<Rightarrow> take_items_loop parsed (0, ic))"

subsection \<open>Pass 3: one entry, by action\<close>

definition do_INCOME :: "ledger \<Rightarrow> entry \<Rightarrow> error + ledger" where
  \<comment> \<open>lines 257 to 259\<close>
  "do_INCOME s line =
     (case get_str line ''REF'' of
        Inl e \<Rightarrow> Inl e
      | Inr ref \<Rightarrow>
     (case remove_suffix ref of
        Inl e \<Rightarrow> Inl e
      | Inr key \<Rightarrow>
     (case map_of (ref_value s) key of
        None \<Rightarrow> Inl (KeyError key)
      | Some old \<Rightarrow>
     (case get_num line ''VALUE'' of
        Inl e \<Rightarrow> Inl e
      | Inr v \<Rightarrow>
          Inr (s\<lparr>ref_value := AList.update key (old + v) (ref_value s),
                 cash_flow := cash_flow s + v,
                 profit := profit s + v\<rparr>)))))"

definition do_EXPENSE :: "ledger \<Rightarrow> entry \<Rightarrow> error + ledger" where
  \<comment> \<open>lines 261 to 267\<close>
  "do_EXPENSE s line =
     (case get_num line ''VALUE'' of
        Inl e \<Rightarrow> Inl e
      | Inr v \<Rightarrow>
     (case get_str line ''TYPE'' of
        Inl e \<Rightarrow> Inl e
      | Inr t \<Rightarrow>
          if t \<noteq> ''material'' then
            (case get_str line ''REF'' of
               Inl e \<Rightarrow> Inl e
             | Inr ref \<Rightarrow>
            (case remove_suffix ref of
               Inl e \<Rightarrow> Inl e
             | Inr key \<Rightarrow>
            (case map_of (ref_value s) key of
               None \<Rightarrow> Inl (KeyError key)
             | Some old \<Rightarrow>
                 Inr (s\<lparr>cash_flow := cash_flow s - v,
                        ref_value := AList.update key (old - v) (ref_value s),
                        profit := profit s - v\<rparr>))))
          else Inr (s\<lparr>cash_flow := cash_flow s - v\<rparr>)))"

definition do_OBTAIN :: "ledger \<Rightarrow> entry \<Rightarrow> error + ledger" where
  \<comment> \<open>line 269; \<open>[c] * n\<close> is empty for \<open>n \<le> 0\<close> and an OverflowError for an \<open>n\<close> outside
      the 64-bit index range (running out of memory below that bound is not modelled)\<close>
  "do_OBTAIN s line =
     (case get_str line ''PROJECT'' of
        Inl e \<Rightarrow> Inl e
      | Inr project \<Rightarrow>
     (case map_of (item_cost s) project of
        None \<Rightarrow> Inl (KeyError project)
      | Some queue \<Rightarrow>
     (case get_num line ''COSTEACH'' of
        Inl e \<Rightarrow> Inl e
      | Inr c \<Rightarrow>
     (case get_int line ''QUANTITY'' of
        Inl e \<Rightarrow> Inl e
      | Inr n \<Rightarrow>
          if n < - (2 ^ 63) \<or> 2 ^ 63 \<le> n then Inl OverflowError
          else
            Inr (s\<lparr>item_cost :=
                     AList.update project (queue @ replicate (nat n) c) (item_cost s)\<rparr>)))))"

definition do_RESERVE :: "ledger \<Rightarrow> entry \<Rightarrow> error + ledger" where
  \<comment> \<open>lines 271 to 276\<close>
  "do_RESERVE s line =
     (case get_str line ''REF'' of
        Inl e \<Rightarrow> Inl e
      | Inr ref \<Rightarrow>
     (case remove_suffix ref of
        Inl e \<Rightarrow> Inl e
      | Inr key \<Rightarrow>
          if has_key (ref_value s) key then Inl DuplicatedReserve
          else
     (case get_str line ''ITEMS'' of
        Inl e \<Rightarrow> Inl e
      | Inr its \<Rightarrow>
     (case take_item_and_compute_cost (item_cost s) its of
        Inl e \<Rightarrow> Inl e
      | Inr (item_value, ic) \<Rightarrow>
     (case add_reserved_inventory (reserved_items_counter s) key its (map_of line ''REMARKS'') of
        Inl e \<Rightarrow> Inl e
      | Inr rc \<Rightarrow>
          Inr (s\<lparr>item_cost := ic,
                 reserved_items_counter := rc,
                 ref_value := AList.update key (- item_value) (ref_value s),
                 profit := profit s - item_value\<rparr>))))))"

definition do_RELEASE :: "ledger \<Rightarrow> entry \<Rightarrow> error + ledger" where
  \<comment> \<open>lines 279 to 286\<close>
  "do_RELEASE s line =
     (case get_str line ''REF'' of
        Inl e \<Rightarrow> Inl e
      | Inr ref \<Rightarrow>
     (case remove_suffix ref of
        Inl e \<Rightarrow> Inl e
      | Inr key \<Rightarrow>
     (case get_str line ''ITEMS'' of
        Inl e \<Rightarrow> Inl e
      | Inr its \<Rightarrow>
          if \<not> has_key (reserved_items_counter s) key then
            (case take_item_and_compute_cost (item_cost s) its of
               Inl e \<Rightarrow> Inl e
             | Inr (item_value, ic) \<Rightarrow>
                 (let rv = (if \<not> has_key (ref_value s) key
                            then AList.update key 0 (ref_value s) else ref_value s)
                  in case map_of rv key of
                       None \<Rightarrow> Inl (KeyError key)
                     | Some old \<Rightarrow>
                         Inr (s\<lparr>item_cost := ic,
                                ref_value := AList.update key (old - item_value) rv,
                                profit := profit s - item_value\<rparr>)))
          else
            (case take_reserved_inventory (reserved_items_counter s) key its of
               Inl e \<Rightarrow> Inl e
             | Inr rc \<Rightarrow> Inr (s\<lparr>reserved_items_counter := rc\<rparr>)))))"

definition step :: "ledger \<Rightarrow> entry \<Rightarrow> error + ledger" where
  \<comment> \<open>the body of the loop of lines 254 to 286\<close>
  "step s line =
     (case get_str line ''ACTION'' of
        Inl e \<Rightarrow> Inl e
      | Inr action \<Rightarrow>
          if action = ''INCOME'' then do_INCOME s line
          else if action = ''EXPENSE'' then do_EXPENSE s line
          else if action = ''OBTAIN'' then do_OBTAIN s line
          else if action = ''RESERVE'' then do_RESERVE s line
          else if action = ''RELEASE'' then do_RELEASE s line
          else Inr s)"

fun pass3_loop :: "ledger \<Rightarrow> entry list \<Rightarrow> error + ledger" where
  "pass3_loop s [] = Inr s"
| "pass3_loop s (line # rest) =
     (case step s line of
        Inl e \<Rightarrow> Inl e
      | Inr s' \<Rightarrow> pass3_loop s' rest)"

definition pass3 :: "entry list \<Rightarrow> error + ledger" where
  "pass3 data_table = pass3_loop ledger0 data_table"

subsection \<open>The whole script\<close>

datatype outcome =
    Pass1Failed error     \<comment> \<open>raised while the data table was being read\<close>
  | Pass2Failed error     \<comment> \<open>raised in validation, before line 217 creates the ledger state\<close>
  | Pass3Failed error     \<comment> \<open>raised while the entries were being reconciled\<close>
  | Report ledger         \<comment> \<open>the state the report of lines 288 to 301 prints\<close>

definition analyzer :: "rate_provider \<Rightarrow> string list \<Rightarrow> outcome" where
  "analyzer rates record_lines =
     (case pass1 record_lines of
        Inl e \<Rightarrow> Pass1Failed e
      | Inr data_table \<Rightarrow>
     (case pass2 rates data_table of
        Inl e \<Rightarrow> Pass2Failed e
      | Inr data_table' \<Rightarrow>
     (case pass3 data_table' of
        Inl e \<Rightarrow> Pass3Failed e
      | Inr s \<Rightarrow> Report s)))"

subsection \<open>The quantities the specification names\<close>











subsection \<open>The third pass in the arithmetic of the script\<close>
































subsection \<open>Whole amounts, and the quantities of the specification for the floating pass\<close>
















subsection \<open>The exact pass and the floating pass side by side\<close>














subsection \<open>Three ledgers\<close>









section \<open>Properties\<close>

subsection \<open>Values and reference keys\<close>

lemma convert_to_usd_USD100:
  "rates d = Some tbl \<Longrightarrow> convert_to_usd rates d ''USD100'' = Inr 100"
  by (simp add: convert_to_usd_def strip_def is_space_def match_amount_def is_alpha_def
      is_digit_def py_float_def sign_of_def number_of_def digitpart_def exponent_of_def
      digits_value_def digit_val_def upper_def)

lemma py_float_0: "py_float ''0'' = Some 0"
  by (simp add: strip_def is_space_def is_digit_def py_float_def sign_of_def number_of_def
      digitpart_def exponent_of_def digits_value_def digit_val_def)

lemma py_float_10: "py_float ''10'' = Some 10"
  by (simp add: strip_def is_space_def is_digit_def py_float_def sign_of_def number_of_def
      digitpart_def exponent_of_def digits_value_def digit_val_def)

lemma takeWhile_run:
  "list_all P p \<Longrightarrow> (\<forall>c \<in> set l. \<not> P c) \<Longrightarrow> takeWhile P (p @ l) = p"
  by (induction p) (auto simp: takeWhile_eq_Nil_iff)

lemma endswith_append: "endswith (p @ s) s"
  by (simp add: endswith_def)

text \<open>
  Claim C9. Once the rate table of the date \<open>d\<close> has been loaded,
  \<open>compute_value(d, "USD100", "0%", income=True)\<close> is 100 and
  \<open>compute_value(d, "USD100", "10%", income=False)\<close> is 110. In general a percentage fee
  is that percentage of the converted amount, any other fee is converted on its own, and
  the fee is subtracted from the amount for income and added to it for expense.
\<close>

theorem compute_value_fee:
  "(rates d \<noteq> None \<longrightarrow>
      compute_value rates d ''USD100'' ''0%'' True = Inr 100
      \<and> compute_value rates d ''USD100'' ''10%'' False = Inr 110)
   \<and> (\<forall>amount p a pct income.
        convert_to_usd rates d amount = Inr a \<and> py_float p = Some pct \<longrightarrow>
        compute_value rates d amount (p @ ''%'') income
          = Inr (if income then a - a * pct / 100 else a + a * pct / 100))
   \<and> (\<forall>amount fee a f income.
        convert_to_usd rates d amount = Inr a \<and> \<not> endswith fee ''%''
        \<and> convert_to_usd rates d fee = Inr f \<longrightarrow>
        compute_value rates d amount fee income = Inr (if income then a - f else a + f))"
proof (intro conjI impI allI)
  assume "rates d \<noteq> None"
  then obtain tbl where t: "rates d = Some tbl" by auto
  show "compute_value rates d ''USD100'' ''0%'' True = Inr 100"
    using convert_to_usd_USD100 [of rates d tbl] t py_float_0
    by (simp add: compute_value_def endswith_def)
next
  assume "rates d \<noteq> None"
  then obtain tbl where t: "rates d = Some tbl" by auto
  show "compute_value rates d ''USD100'' ''10%'' False = Inr 110"
    using convert_to_usd_USD100 [of rates d tbl] t py_float_10
    by (simp add: compute_value_def endswith_def)
next
  fix amount p a pct income
  assume h: "convert_to_usd rates d amount = Inr a \<and> py_float p = Some pct"
  show "compute_value rates d amount (p @ ''%'') income
          = Inr (if income then a - a * pct / 100 else a + a * pct / 100)"
    using h by (simp add: compute_value_def endswith_append butlast_append)
next
  fix amount fee a f income
  assume h: "convert_to_usd rates d amount = Inr a \<and> \<not> endswith fee ''%''
        \<and> convert_to_usd rates d fee = Inr f"
  show "compute_value rates d amount fee income = Inr (if income then a - f else a + f)"
    using h by (simp add: compute_value_def)
qed

theorem compute_value_fee_witness:
  "compute_value (\<lambda>d. Some Map.empty) ''2024-01-01'' ''USD100'' ''0%'' True = Inr 100
   \<and> compute_value (\<lambda>d. Some Map.empty) ''2024-01-01'' ''USD100'' ''10%'' False = Inr 110
   \<and> convert_to_usd (\<lambda>d. Some [''EUR'' \<mapsto> 2]) ''2024-01-01'' ''EUR50'' = Inr 25
   \<and> py_float ''4'' = Some 4
   \<and> compute_value (\<lambda>d. Some [''EUR'' \<mapsto> 2]) ''2024-01-01'' ''EUR50'' ''4%'' True = Inr 24
   \<and> \<not> endswith ''USD3'' ''%''
   \<and> convert_to_usd (\<lambda>d. Some [''EUR'' \<mapsto> 2]) ''2024-01-01'' ''USD3'' = Inr 3
   \<and> compute_value (\<lambda>d. Some [''EUR'' \<mapsto> 2]) ''2024-01-01'' ''EUR50'' ''USD3'' False = Inr 28"
proof -
  let ?r = "\<lambda>d::string. Some [''EUR'' \<mapsto> (2::real)]"
  have a: "convert_to_usd ?r ''2024-01-01'' ''EUR50'' = Inr 25" by code_simp
  have b: "py_float ''4'' = Some 4" by code_simp
  have c: "\<not> endswith ''USD3'' ''%''" by code_simp
  have d: "convert_to_usd ?r ''2024-01-01'' ''USD3'' = Inr 3" by code_simp
  have e: "''4%'' = ''4'' @ ''%''" by simp
  note t1 = compute_value_fee [of "\<lambda>d. Some Map.empty" "''2024-01-01''"]
  note t2 = compute_value_fee [of ?r "''2024-01-01''"]
  have f: "compute_value ?r ''2024-01-01'' ''EUR50'' (''4'' @ ''%'') True = Inr (25 - 25 * 4 / 100)"
    using t2 [THEN conjunct2, THEN conjunct1, rule_format, of "''EUR50''" 25 "''4''" 4 True] a b
    by simp
  have g: "compute_value ?r ''2024-01-01'' ''EUR50'' ''USD3'' False = Inr (25 + 3)"
    using t2 [THEN conjunct2, THEN conjunct2, rule_format, of "''EUR50''" 25 "''USD3''" 3 False] a c d
    by simp
  have h: "compute_value (\<lambda>d. Some Map.empty) ''2024-01-01'' ''USD100'' ''0%'' True = Inr 100
   \<and> compute_value (\<lambda>d. Some Map.empty) ''2024-01-01'' ''USD100'' ''10%'' False = Inr 110"
    using t1 [THEN conjunct1] by simp
  from a b c d f g h show ?thesis by simp
qed

lemma remove_suffix_Cons:
  "is_ref_char c \<Longrightarrow> remove_suffix (c # cs) = Inr (c # takeWhile is_ref_char cs)"
  by (simp add: remove_suffix_def match_ref_def)

lemma alpha_not_ref: "is_alpha c \<Longrightarrow> \<not> is_ref_char c"
  by (auto simp: is_alpha_def is_ref_char_def is_digit_def)

text \<open>
  Claim C4, as amended. The empty string gives the empty key. A string that starts with a
  digit, a hyphen or an underscore gives its longest leading run of such characters, and
  everything from the first other character on is dropped. When that run is followed by
  letters only, the key is the string without its alphabetic suffix, so \<open>123a\<close> and
  \<open>123b\<close> share the key \<open>123\<close>.
\<close>

theorem remove_suffix_leading_run:
  "remove_suffix [] = Inr []
   \<and> (\<forall>c cs. is_ref_char c \<longrightarrow>
         remove_suffix (c # cs) = Inr (takeWhile is_ref_char (c # cs)))
   \<and> (\<forall>p l. p \<noteq> [] \<and> list_all is_ref_char p \<and> list_all is_alpha l \<longrightarrow>
         remove_suffix (p @ l) = Inr p)
   \<and> remove_suffix ''123a'' = Inr ''123'' \<and> remove_suffix ''123b'' = Inr ''123''"
proof (intro conjI allI impI)
  show "remove_suffix [] = Inr []" by (simp add: remove_suffix_def)
next
  fix c cs assume "is_ref_char c"
  then show "remove_suffix (c # cs) = Inr (takeWhile is_ref_char (c # cs))"
    by (simp add: remove_suffix_Cons)
next
  fix p l :: string
  assume h: "p \<noteq> [] \<and> list_all is_ref_char p \<and> list_all is_alpha l"
  then have "\<forall>c \<in> set l. \<not> is_ref_char c"
    by (auto simp: list_all_iff alpha_not_ref)
  with h have "takeWhile is_ref_char (p @ l) = p"
    by (simp add: takeWhile_run)
  with h show "remove_suffix (p @ l) = Inr p"
    by (simp add: remove_suffix_def match_ref_def)
next
  show "remove_suffix ''123a'' = Inr ''123''" by code_simp
next
  show "remove_suffix ''123b'' = Inr ''123''" by code_simp
qed

theorem remove_suffix_leading_run_witness:
  "is_ref_char CHR ''1'' \<and> remove_suffix ''12ab34'' = Inr ''12''
   \<and> ''2024-07'' \<noteq> [] \<and> list_all is_ref_char ''2024-07'' \<and> list_all is_alpha ''bc''
   \<and> remove_suffix (''2024-07'' @ ''bc'') = Inr ''2024-07''"
proof -
  have a: "is_ref_char CHR ''1''" by code_simp
  have b: "takeWhile is_ref_char ''12ab34'' = ''12''" by code_simp
  have c: "''2024-07'' \<noteq> [] \<and> list_all is_ref_char ''2024-07'' \<and> list_all is_alpha ''bc''"
    by code_simp
  have d: "remove_suffix ''12ab34'' = Inr ''12''"
    using remove_suffix_leading_run [THEN conjunct2, THEN conjunct1, rule_format, of "CHR ''1''" "''2ab34''"]
      a b by simp
  have e: "remove_suffix (''2024-07'' @ ''bc'') = Inr ''2024-07''"
    using remove_suffix_leading_run [THEN conjunct2, THEN conjunct2, THEN conjunct1, rule_format,
        of "''2024-07''" "''bc''"] c by blast
  from a c d e show ?thesis by blast
qed

text \<open>
  The claim as stated fails: a reference that starts with a letter has no match, and the
  script calls \<open>.group\<close> on \<open>None\<close>; letters in the middle end the key as well.
\<close>

theorem remove_suffix_counterexample:
  "remove_suffix ''order-123a'' = Inl AttributeError
   \<and> remove_suffix ''order-123b'' = Inl AttributeError
   \<and> remove_suffix ''12ab34'' = Inr ''12''"
  by code_simp

subsection \<open>Runs of the whole script\<close>

text \<open>
  Claim C3 at a failing input. An INCOME entry whose reference is not yet a key of
  \<open>ref_value\<close> stops the run with a KeyError at line 257: the augmented assignment reads
  the bucket before it adds to it, and only the RELEASE branch (line 281) creates a
  missing bucket. After a RELEASE has created the bucket, the same INCOME entry is added
  to \<open>cash_flow\<close>, to \<open>profit\<close> and to the bucket.
\<close>

theorem income_new_reference_fails:
  "analyzer (\<lambda>d. Some Map.empty)
     [''INCOME: DATE 2024-01-01, TYPE sales, AMOUNT USD100, FEE 0%, REF 1'']
   = Pass3Failed (KeyError ''1'')
   \<and> analyzer (\<lambda>d. Some Map.empty)
     [''OBTAIN: DATE 2024-01-01, TYPE assembled, PROJECT ilonena, QUANTITY 1, COSTEACH USD5'',
      ''RELEASE: DATE 2024-01-02, TYPE sales, REF 1, ITEMS ilonena1'',
      ''INCOME: DATE 2024-01-03, TYPE sales, AMOUNT USD100, FEE 0%, REF 1'']
   = Report \<lparr>item_cost = [(''ilonena'', []), (''ilomusiali'', [])],
              ref_value = [([], 0), (''1'', 95)], reserved_items_counter = [],
              cash_flow = 100, profit = 95\<rparr>"
  by code_simp

text \<open>
  The scenario of claim C5 as stated: \<open>widgetX\<close> is not in \<open>AVAILABLE_ITEMS\<close>, so the
  first entry fails validation; with an item of the table, the reference \<open>order1\<close> still
  has no key, since it starts with a letter.
\<close>

theorem scenario_counterexample:
  "analyzer (\<lambda>d. Some Map.empty)
     [''OBTAIN: DATE 2024-01-01, TYPE assembled, PROJECT widgetX, QUANTITY 2, COSTEACH USD5'',
      ''RELEASE: DATE 2024-01-02, TYPE sales, REF order1, ITEMS widgetX1'']
   = Pass2Failed InvalidProject
   \<and> analyzer (\<lambda>d. Some Map.empty)
     [''OBTAIN: DATE 2024-01-01, TYPE assembled, PROJECT ilonena, QUANTITY 2, COSTEACH USD5'',
      ''RELEASE: DATE 2024-01-02, TYPE sales, REF order1, ITEMS ilonena1'']
   = Pass3Failed AttributeError"
  by code_simp

text \<open>
  Claim C7 at a failing input. After RESERVE of 3 units, RELEASE of 1 and RELEASE of 2
  succeed and leave no outstanding quantity: the item is popped from the reservation
  when it reaches zero (line 237). A third RELEASE of 1 unit then stops at line 235 with
  a KeyError for the popped item, not with the error of line 239, which is raised only
  when one RELEASE takes an item from a positive count to a negative one.
\<close>

theorem release_after_full_release:
  "analyzer (\<lambda>d. Some Map.empty)
     [''OBTAIN: DATE 2024-01-01, TYPE assembled, PROJECT ilonena, QUANTITY 3, COSTEACH USD5'',
      ''RESERVE: DATE 2024-01-02, REF 7, ITEMS ilonena3'',
      ''RELEASE: DATE 2024-01-03, TYPE sales, REF 7, ITEMS ilonena1'',
      ''RELEASE: DATE 2024-01-04, TYPE sales, REF 7, ITEMS ilonena2'']
   = Report \<lparr>item_cost = [(''ilonena'', []), (''ilomusiali'', [])],
              ref_value = [([], 0), (''7'', - 15)],
              reserved_items_counter = [(''7'', \<lparr>items = [], remarks = Some (VStr [])\<rparr>)],
              cash_flow = 0, profit = - 15\<rparr>
   \<and> analyzer (\<lambda>d. Some Map.empty)
     [''OBTAIN: DATE 2024-01-01, TYPE assembled, PROJECT ilonena, QUANTITY 3, COSTEACH USD5'',
      ''RESERVE: DATE 2024-01-02, REF 7, ITEMS ilonena3'',
      ''RELEASE: DATE 2024-01-03, TYPE sales, REF 7, ITEMS ilonena1'',
      ''RELEASE: DATE 2024-01-04, TYPE sales, REF 7, ITEMS ilonena2'',
      ''RELEASE: DATE 2024-01-05, TYPE sales, REF 7, ITEMS ilonena1'']
   = Pass3Failed (KeyError ''ilonena'')
   \<and> analyzer (\<lambda>d. Some Map.empty)
     [''OBTAIN: DATE 2024-01-01, TYPE assembled, PROJECT ilonena, QUANTITY 3, COSTEACH USD5'',
      ''RESERVE: DATE 2024-01-02, REF 7, ITEMS ilonena3'',
      ''RELEASE: DATE 2024-01-03, TYPE sales, REF 7, ITEMS ilonena4'']
   = Pass3Failed OverRelease"
  by code_simp

subsection \<open>The reference ledger and the profit\<close>










lemma pass3_loop_append:
  "pass3_loop s (xs @ ys) =
     (case pass3_loop s xs of Inl e \<Rightarrow> Inl e | Inr s' \<Rightarrow> pass3_loop s' ys)"
  by (induction xs arbitrary: s) (auto split: sum.splits)

subsection \<open>The cost queues are first in, first out\<close>






subsection \<open>The profit identity\<close>









lemma pass3_prefix:
  "pass3 (xs @ ys) = Inr sf \<Longrightarrow> \<exists>s. pass3 xs = Inr s"
  by (auto simp: pass3_def pass3_loop_append split: sum.splits)



subsection \<open>A reference is reserved once\<close>

lemma has_key_update: "has_key (AList.update k v al) k' \<longleftrightarrow> k' = k \<or> has_key al k'"
  by (simp add: has_key_def update_conv')

lemma get_str_error: "get_str line k = Inl e \<Longrightarrow> e = KeyError k \<or> e = TypeError"
  by (auto simp: get_str_def split: option.splits pyval.splits)

lemma parse_items_loop_error:
  "parse_items_loop ret toks = Inl e \<Longrightarrow> e = InvalidItems \<or> e = IntError"
  by (induction toks arbitrary: ret) (auto split: option.splits)

lemma parse_items_error: "parse_items its = Inl e \<Longrightarrow> e = InvalidItems \<or> e = IntError"
  unfolding parse_items_def by (rule parse_items_loop_error)

lemma take_units_error:
  "take_units n k acc = Inl e \<Longrightarrow> e = KeyError n \<or> e = IndexError"
proof (induction k arbitrary: acc)
  case 0
  then show ?case by (cases acc) simp
next
  case (Suc k)
  obtain tot ic where acc: "acc = (tot, ic)" by (cases acc)
  from Suc.prems acc show ?case
    by (auto split: option.splits list.splits dest: Suc.IH)
qed

lemma take_items_loop_error:
  "take_items_loop parsed acc = Inl e \<Longrightarrow> (\<exists>n. e = KeyError n) \<or> e = IndexError"
proof (induction parsed arbitrary: acc)
  case Nil
  then show ?case by simp
next
  case (Cons p parsed)
  obtain n q where p: "p = (n, q)" by (cases p)
  from Cons.prems p show ?case
    by (auto split: sum.splits dest: take_units_error Cons.IH)
qed

lemma take_item_and_compute_cost_error:
  "take_item_and_compute_cost ic its = Inl e \<Longrightarrow> e \<noteq> DuplicatedReserve"
  unfolding take_item_and_compute_cost_def
  by (auto split: sum.splits dest: parse_items_error take_items_loop_error)

lemma add_reserved_inventory_error:
  "add_reserved_inventory rc key its rem = Inl e \<Longrightarrow> e \<noteq> DuplicatedReserve"
  unfolding add_reserved_inventory_def
  by (auto split: sum.splits dest: parse_items_error)

lemma do_RESERVE_duplicate:
  assumes "get_str line ''REF'' = Inr ref" and "remove_suffix ref = Inr key"
  shows "do_RESERVE s line = Inl DuplicatedReserve \<longleftrightarrow> has_key (ref_value s) key"
proof (cases "has_key (ref_value s) key")
  case True
  with assms show ?thesis by (simp add: do_RESERVE_def)
next
  case False
  have "do_RESERVE s line \<noteq> Inl DuplicatedReserve"
  proof
    assume d: "do_RESERVE s line = Inl DuplicatedReserve"
    show False
    proof (cases "get_str line ''ITEMS''")
      case (Inl e)
      with d assms False get_str_error [OF Inl] show False
        by (auto simp: do_RESERVE_def)
    next
      case (Inr its)
      show False
      proof (cases "take_item_and_compute_cost (item_cost s) its")
        case (Inl e)
        with d assms False Inr take_item_and_compute_cost_error [OF Inl] show False
          by (simp add: do_RESERVE_def)
      next
        case r: (Inr res)
        obtain v ic where res: "res = (v, ic)" by (cases res)
        show False
        proof (cases "add_reserved_inventory (reserved_items_counter s) key its
                        (map_of line ''REMARKS'')")
          case (Inl e)
          with d assms False Inr r res add_reserved_inventory_error [OF Inl] show False
            by (simp add: do_RESERVE_def)
        next
          case (Inr rc)
          with d assms False \<open>get_str line ''ITEMS'' = Inr its\<close> r res show False
            by (simp add: do_RESERVE_def)
        qed
      qed
    qed
  qed
  with False show ?thesis by simp
qed

lemma do_RESERVE_creates_key:
  assumes "do_RESERVE s line = Inr s'" and "get_str line ''REF'' = Inr ref"
    and "remove_suffix ref = Inr key"
  shows "has_key (ref_value s') key"
  using assms unfolding do_RESERVE_def
  by (auto split: sum.splits if_splits prod.splits simp: has_key_update)

lemma step_keeps_keys:
  assumes "step s line = Inr s'" and "has_key (ref_value s) k"
  shows "has_key (ref_value s') k"
proof -
  have a: "\<And>f. f s line = Inr s' \<Longrightarrow> f = do_INCOME \<or> f = do_EXPENSE \<or> f = do_OBTAIN
            \<or> f = do_RESERVE \<or> f = do_RELEASE \<Longrightarrow> has_key (ref_value s') k"
  proof -
    fix f assume r: "f s line = Inr s'"
      and f: "f = do_INCOME \<or> f = do_EXPENSE \<or> f = do_OBTAIN \<or> f = do_RESERVE \<or> f = do_RELEASE"
    from f show "has_key (ref_value s') k"
    proof (elim disjE)
      assume "f = do_INCOME"
      with r assms(2) show ?thesis unfolding do_INCOME_def
        by (auto split: sum.splits option.splits simp: has_key_update)
    next
      assume "f = do_EXPENSE"
      with r assms(2) show ?thesis unfolding do_EXPENSE_def
        by (auto split: sum.splits option.splits if_splits simp: has_key_update)
    next
      assume "f = do_OBTAIN"
      with r assms(2) show ?thesis unfolding do_OBTAIN_def
        by (auto split: sum.splits option.splits if_splits)
    next
      assume "f = do_RESERVE"
      with r assms(2) show ?thesis unfolding do_RESERVE_def
        by (auto split: sum.splits if_splits prod.splits simp: has_key_update)
    next
      assume "f = do_RELEASE"
      with r assms(2) show ?thesis unfolding do_RELEASE_def
        by (auto split: sum.splits option.splits if_splits prod.splits
            simp: has_key_update Let_def)
    qed
  qed
  from assms show ?thesis unfolding step_def
    by (auto split: sum.splits if_splits intro: a)
qed

lemma pass3_loop_keeps_keys:
  "pass3_loop s xs = Inr s' \<Longrightarrow> has_key (ref_value s) k \<Longrightarrow> has_key (ref_value s') k"
proof (induction xs arbitrary: s)
  case Nil
  then show ?case by simp
next
  case (Cons x xs)
  then obtain s1 where a: "step s x = Inr s1" and b: "pass3_loop s1 xs = Inr s'"
    by (auto split: sum.splits)
  from Cons.IH [OF b step_keeps_keys [OF a Cons.prems(2)]] show ?case .
qed

lemma step_RESERVE: "get_str line ''ACTION'' = Inr ''RESERVE'' \<Longrightarrow> step s line = do_RESERVE s line"
  by (simp add: step_def)

text \<open>
  Claim C6. A RESERVE entry whose reference has a key (the reference with its suffix
  removed) fails with the duplicate error of line 272 exactly when that key is already
  a key of the reference ledger; no other failure of the branch is this error. In
  particular, once a RESERVE has succeeded, every later RESERVE whose reference has the
  same key fails with that error, whatever entries were processed in between.
\<close>

theorem reserve_duplicate_reference:
  assumes "get_str line ''ACTION'' = Inr ''RESERVE''"
    and "get_str line ''REF'' = Inr ref" and "remove_suffix ref = Inr key"
  shows "(has_key (ref_value s) key \<longrightarrow> step s line = Inl DuplicatedReserve)
       \<and> (\<not> has_key (ref_value s) key \<longrightarrow> step s line \<noteq> Inl DuplicatedReserve)
       \<and> (\<forall>s1 mid s2 line2 ref2.
             step s line = Inr s1 \<and> pass3_loop s1 mid = Inr s2
             \<and> get_str line2 ''ACTION'' = Inr ''RESERVE''
             \<and> get_str line2 ''REF'' = Inr ref2 \<and> remove_suffix ref2 = Inr key
             \<longrightarrow> step s2 line2 = Inl DuplicatedReserve)"
proof (intro conjI allI impI)
  assume "has_key (ref_value s) key"
  with do_RESERVE_duplicate [OF assms(2,3), of s] step_RESERVE [OF assms(1), of s]
  show "step s line = Inl DuplicatedReserve" by simp
next
  assume "\<not> has_key (ref_value s) key"
  with do_RESERVE_duplicate [OF assms(2,3), of s] step_RESERVE [OF assms(1), of s]
  show "step s line \<noteq> Inl DuplicatedReserve" by simp
next
  fix s1 mid s2 line2 ref2
  assume h: "step s line = Inr s1 \<and> pass3_loop s1 mid = Inr s2
             \<and> get_str line2 ''ACTION'' = Inr ''RESERVE''
             \<and> get_str line2 ''REF'' = Inr ref2 \<and> remove_suffix ref2 = Inr key"
  then have "do_RESERVE s line = Inr s1" using step_RESERVE [OF assms(1), of s] by simp
  from do_RESERVE_creates_key [OF this assms(2,3)] have "has_key (ref_value s1) key" .
  with h have k: "has_key (ref_value s2) key" by (blast intro: pass3_loop_keeps_keys)
  from h have a2: "get_str line2 ''ACTION'' = Inr ''RESERVE''"
    and r2: "get_str line2 ''REF'' = Inr ref2" and k2: "remove_suffix ref2 = Inr key"
    by simp_all
  from do_RESERVE_duplicate [OF r2 k2, of s2] step_RESERVE [OF a2, of s2] k
  show "step s2 line2 = Inl DuplicatedReserve" by simp
qed

theorem reserve_duplicate_reference_witness:
  "get_str [(''ACTION'', VStr ''RESERVE''), (''DATE'', VStr ''2024-01-02''),
            (''REF'', VStr ''7a''), (''ITEMS'', VStr ''ilonena1''), (''REMARKS'', VStr [])]
     ''ACTION'' = Inr ''RESERVE''
   \<and> remove_suffix ''7a'' = Inr ''7'' \<and> remove_suffix ''7b'' = Inr ''7''
   \<and> \<not> has_key (ref_value (ledger0\<lparr>item_cost := [(''ilonena'', [5, 6])]\<rparr>)) ''7''
   \<and> step (ledger0\<lparr>item_cost := [(''ilonena'', [5, 6])]\<rparr>)
        [(''ACTION'', VStr ''RESERVE''), (''DATE'', VStr ''2024-01-02''),
         (''REF'', VStr ''7a''), (''ITEMS'', VStr ''ilonena1''), (''REMARKS'', VStr [])]
      \<noteq> Inl DuplicatedReserve
   \<and> step (ledger0\<lparr>item_cost := [(''ilonena'', [5, 6])]\<rparr>)
        [(''ACTION'', VStr ''RESERVE''), (''DATE'', VStr ''2024-01-02''),
         (''REF'', VStr ''7a''), (''ITEMS'', VStr ''ilonena1''), (''REMARKS'', VStr [])]
      = Inr \<lparr>item_cost = [(''ilonena'', [6])], ref_value = [([], 0), (''7'', - 5)],
              reserved_items_counter =
                [(''7'', \<lparr>items = [(''ilonena'', 1)], remarks = Some (VStr [])\<rparr>)],
              cash_flow = 0, profit = - 5\<rparr>
   \<and> step \<lparr>item_cost = [(''ilonena'', [6])], ref_value = [([], 0), (''7'', - 5)],
              reserved_items_counter =
                [(''7'', \<lparr>items = [(''ilonena'', 1)], remarks = Some (VStr [])\<rparr>)],
              cash_flow = 0, profit = - 5\<rparr>
        [(''ACTION'', VStr ''RESERVE''), (''DATE'', VStr ''2024-01-03''),
         (''REF'', VStr ''7b''), (''ITEMS'', VStr ''ilonena1''), (''REMARKS'', VStr [])]
      = Inl DuplicatedReserve"
proof -
  let ?L = "[(''ACTION'', VStr ''RESERVE''), (''DATE'', VStr ''2024-01-02''),
            (''REF'', VStr ''7a''), (''ITEMS'', VStr ''ilonena1''), (''REMARKS'', VStr [])]"
  let ?L2 = "[(''ACTION'', VStr ''RESERVE''), (''DATE'', VStr ''2024-01-03''),
         (''REF'', VStr ''7b''), (''ITEMS'', VStr ''ilonena1''), (''REMARKS'', VStr [])]"
  let ?S = "ledger0\<lparr>item_cost := [(''ilonena'', [5, 6])]\<rparr>"
  let ?S1 = "\<lparr>item_cost = [(''ilonena'', [6])], ref_value = [([], 0), (''7'', - 5)],
              reserved_items_counter =
                [(''7'', \<lparr>items = [(''ilonena'', 1)], remarks = Some (VStr [])\<rparr>)],
              cash_flow = 0, profit = - 5\<rparr>"
  have a: "get_str ?L ''ACTION'' = Inr ''RESERVE''" by code_simp
  have r: "get_str ?L ''REF'' = Inr ''7a''" by code_simp
  have k: "remove_suffix ''7a'' = Inr ''7''" by code_simp
  have a2: "get_str ?L2 ''ACTION'' = Inr ''RESERVE''" by code_simp
  have r2: "get_str ?L2 ''REF'' = Inr ''7b''" by code_simp
  have k2: "remove_suffix ''7b'' = Inr ''7''" by code_simp
  have n: "\<not> has_key (ref_value ?S) ''7''" by code_simp
  have st: "step ?S ?L = Inr ?S1" by code_simp
  have p3: "pass3_loop ?S1 [] = Inr ?S1" by simp
  note T = reserve_duplicate_reference [OF a r k, of ?S]
  from T n have c1: "step ?S ?L \<noteq> Inl DuplicatedReserve" by blast
  from T [THEN conjunct2, THEN conjunct2, rule_format, of ?S1 "[]" ?S1 ?L2 "''7b''"]
    st p3 a2 r2 k2
  have c2: "step ?S1 ?L2 = Inl DuplicatedReserve" by blast
  from a k k2 n c1 st c2 show ?thesis by (intro conjI)
qed

subsection \<open>OBTAIN appends, consumption takes from the front\<close>









subsection \<open>The end-to-end scenario\<close>

lemma convert_to_usd_USD5:
  "rates d = Some tbl \<Longrightarrow> convert_to_usd rates d ''USD5'' = Inr 5"
  by (simp add: convert_to_usd_def strip_def is_space_def match_amount_def is_alpha_def
      is_digit_def py_float_def sign_of_def number_of_def digitpart_def exponent_of_def
      digits_value_def digit_val_def upper_def)

lemma scenario_pass1:
  "pass1 [''OBTAIN: DATE 2024-01-01, TYPE assembled, PROJECT ilonena, QUANTITY 2, COSTEACH USD5'',
          ''RELEASE: DATE 2024-01-02, TYPE sales, REF 1, ITEMS ilonena1'']
   = Inr [[(''ACTION'', ''OBTAIN''), (''DATE'', ''2024-01-01''), (''TYPE'', ''assembled''),
           (''PROJECT'', ''ilonena''), (''QUANTITY'', ''2''), (''COSTEACH'', ''USD5'')],
          [(''ACTION'', ''RELEASE''), (''DATE'', ''2024-01-02''), (''TYPE'', ''sales''),
           (''REF'', ''1''), (''ITEMS'', ''ilonena1'')]]"
  by code_simp

lemma scenario_stage_A_obtain:
  "stage_A ''0000-00-00''
     [(''ACTION'', ''OBTAIN''), (''DATE'', ''2024-01-01''), (''TYPE'', ''assembled''),
      (''PROJECT'', ''ilonena''), (''QUANTITY'', ''2''), (''COSTEACH'', ''USD5'')]
   = Inr (''OBTAIN'', ''2024-01-01'',
          [(''ACTION'', ''OBTAIN''), (''DATE'', ''2024-01-01''), (''TYPE'', ''assembled''),
           (''PROJECT'', ''ilonena''), (''QUANTITY'', ''2''), (''COSTEACH'', ''USD5''),
           (''BATCH'', []), (''REMARKS'', [])])"
  by code_simp

lemma scenario_stage_A_release:
  "stage_A ''2024-01-01''
     [(''ACTION'', ''RELEASE''), (''DATE'', ''2024-01-02''), (''TYPE'', ''sales''),
      (''REF'', ''1''), (''ITEMS'', ''ilonena1'')]
   = Inr (''RELEASE'', ''2024-01-02'',
          [(''ACTION'', ''RELEASE''), (''DATE'', ''2024-01-02''), (''TYPE'', ''sales''),
           (''REF'', ''1''), (''ITEMS'', ''ilonena1''), (''REMARKS'', [])])"
  by code_simp

lemma py_int_2: "py_int ''2'' = Some 2"
  by code_simp

lemma scenario_stage_B_obtain:
  assumes "rates ''2024-01-01'' = Some tbl"
  shows "stage_B rates ''OBTAIN'' ''2024-01-01''
     [(''ACTION'', ''OBTAIN''), (''DATE'', ''2024-01-01''), (''TYPE'', ''assembled''),
      (''PROJECT'', ''ilonena''), (''QUANTITY'', ''2''), (''COSTEACH'', ''USD5''),
      (''BATCH'', []), (''REMARKS'', [])]
   = Inr [(''ACTION'', VStr ''OBTAIN''), (''DATE'', VStr ''2024-01-01''),
          (''TYPE'', VStr ''assembled''), (''PROJECT'', VStr ''ilonena''),
          (''QUANTITY'', VInt 2), (''COSTEACH'', VFloat 5), (''BATCH'', VStr []),
          (''REMARKS'', VStr [])]"
  using convert_to_usd_USD5 [of rates "''2024-01-01''" tbl] assms py_int_2
  by (simp add: stage_B_def convert_costeach_def convert_quantity_def add_value_def)

lemma scenario_stage_B_release:
  "stage_B rates ''RELEASE'' ''2024-01-02''
     [(''ACTION'', ''RELEASE''), (''DATE'', ''2024-01-02''), (''TYPE'', ''sales''),
      (''REF'', ''1''), (''ITEMS'', ''ilonena1''), (''REMARKS'', [])]
   = Inr [(''ACTION'', VStr ''RELEASE''), (''DATE'', VStr ''2024-01-02''),
          (''TYPE'', VStr ''sales''), (''REF'', VStr ''1''), (''ITEMS'', VStr ''ilonena1''),
          (''REMARKS'', VStr [])]"
  by (simp add: stage_B_def convert_costeach_def convert_quantity_def add_value_def)

lemma scenario_pass3:
  "pass3 [[(''ACTION'', VStr ''OBTAIN''), (''DATE'', VStr ''2024-01-01''),
           (''TYPE'', VStr ''assembled''), (''PROJECT'', VStr ''ilonena''),
           (''QUANTITY'', VInt 2), (''COSTEACH'', VFloat 5), (''BATCH'', VStr []),
           (''REMARKS'', VStr [])],
          [(''ACTION'', VStr ''RELEASE''), (''DATE'', VStr ''2024-01-02''),
           (''TYPE'', VStr ''sales''), (''REF'', VStr ''1''), (''ITEMS'', VStr ''ilonena1''),
           (''REMARKS'', VStr [])]]
   = Inr \<lparr>item_cost = [(''ilonena'', [5]), (''ilomusiali'', [])],
           ref_value = [([], 0), (''1'', - 5)], reserved_items_counter = [],
           cash_flow = 0, profit = - 5\<rparr>"
  by code_simp

text \<open>
  Claim C5, as amended: with an item of \<open>AVAILABLE_ITEMS\<close> in place of \<open>widgetX\<close> and a
  reference that starts with a digit in place of \<open>order1\<close>. Once the rate table of
  2024-01-01 has been loaded, the two-entry ledger validates and reconciles: one unit of
  the item remains, at 5 USD; the reference has the value -5; the profit is -5 and the
  cash flow is 0.
\<close>

theorem scenario_configured_item:
  assumes "rates ''2024-01-01'' \<noteq> None"
  shows "analyzer rates
     [''OBTAIN: DATE 2024-01-01, TYPE assembled, PROJECT ilonena, QUANTITY 2, COSTEACH USD5'',
      ''RELEASE: DATE 2024-01-02, TYPE sales, REF 1, ITEMS ilonena1'']
   = Report \<lparr>item_cost = [(''ilonena'', [5]), (''ilomusiali'', [])],
              ref_value = [([], 0), (''1'', - 5)], reserved_items_counter = [],
              cash_flow = 0, profit = - 5\<rparr>"
proof -
  from assms obtain tbl where t: "rates ''2024-01-01'' = Some tbl" by auto
  have c1: "stage_C ''OBTAIN''
     [(''ACTION'', ''OBTAIN''), (''DATE'', ''2024-01-01''), (''TYPE'', ''assembled''),
      (''PROJECT'', ''ilonena''), (''QUANTITY'', ''2''), (''COSTEACH'', ''USD5''),
      (''BATCH'', []), (''REMARKS'', [])] = None"
    by (simp add: stage_C_def)
  have c2: "stage_C ''RELEASE''
     [(''ACTION'', ''RELEASE''), (''DATE'', ''2024-01-02''), (''TYPE'', ''sales''),
      (''REF'', ''1''), (''ITEMS'', ''ilonena1''), (''REMARKS'', [])] = None"
    by (simp add: stage_C_def)
  note sb = scenario_stage_B_obtain [of rates tbl, OF t]
  have v1: "validate_line rates ''0000-00-00''
     [(''ACTION'', ''OBTAIN''), (''DATE'', ''2024-01-01''), (''TYPE'', ''assembled''),
      (''PROJECT'', ''ilonena''), (''QUANTITY'', ''2''), (''COSTEACH'', ''USD5'')]
   = Inr (''2024-01-01'',
          [(''ACTION'', VStr ''OBTAIN''), (''DATE'', VStr ''2024-01-01''),
           (''TYPE'', VStr ''assembled''), (''PROJECT'', VStr ''ilonena''),
           (''QUANTITY'', VInt 2), (''COSTEACH'', VFloat 5), (''BATCH'', VStr []),
           (''REMARKS'', VStr [])])"
    unfolding validate_line_def
    by (simp only: scenario_stage_A_obtain sb c1
        sum.case prod.case option.case)
  have v2: "validate_line rates ''2024-01-01''
     [(''ACTION'', ''RELEASE''), (''DATE'', ''2024-01-02''), (''TYPE'', ''sales''),
      (''REF'', ''1''), (''ITEMS'', ''ilonena1'')]
   = Inr (''2024-01-02'',
          [(''ACTION'', VStr ''RELEASE''), (''DATE'', VStr ''2024-01-02''),
           (''TYPE'', VStr ''sales''), (''REF'', VStr ''1''), (''ITEMS'', VStr ''ilonena1''),
           (''REMARKS'', VStr [])])"
    unfolding validate_line_def
    by (simp only: scenario_stage_A_release scenario_stage_B_release c2
        sum.case prod.case option.case)
  show ?thesis
    unfolding analyzer_def pass2_def
    by (simp only: scenario_pass1 pass2_loop.simps v1 v2 scenario_pass3
        sum.case prod.case option.case)
qed

theorem scenario_configured_item_witness:
  "(\<lambda>d. Some Map.empty :: (string \<rightharpoonup> real) option) ''2024-01-01'' \<noteq> None
   \<and> analyzer (\<lambda>d. Some Map.empty)
     [''OBTAIN: DATE 2024-01-01, TYPE assembled, PROJECT ilonena, QUANTITY 2, COSTEACH USD5'',
      ''RELEASE: DATE 2024-01-02, TYPE sales, REF 1, ITEMS ilonena1'']
   = Report \<lparr>item_cost = [(''ilonena'', [5]), (''ilomusiali'', [])],
              ref_value = [([], 0), (''1'', - 5)], reserved_items_counter = [],
              cash_flow = 0, profit = - 5\<rparr>"
proof -
  have h: "(\<lambda>d. Some Map.empty :: (string \<rightharpoonup> real) option) ''2024-01-01'' \<noteq> None" by simp
  from h scenario_configured_item [OF h] show ?thesis by (rule conjI)
qed

subsection \<open>Validation comes first\<close>

lemma stage_A_date:
  "stage_A last_date line = Inr (action, date, line') \<Longrightarrow>
   map_of line ''DATE'' = Some date \<and> \<not> str_less date last_date"
  unfolding stage_A_def
  by (auto simp: Let_def split: option.splits prod.splits if_splits)

lemma validate_line_date:
  assumes "validate_line rates last_date line = Inr (date, l)"
  shows "map_of line ''DATE'' = Some date \<and> \<not> str_less date last_date"
proof -
  from assms obtain action line' where "stage_A last_date line = Inr (action, date, line')"
    unfolding validate_line_def
    by (auto split: sum.splits prod.splits option.splits)
  then show ?thesis by (rule stage_A_date)
qed

lemma pass2_loop_out_of_order:
  assumes "map_of a ''DATE'' = Some da" and "map_of b ''DATE'' = Some db"
    and "str_less db da"
  shows "\<exists>e. pass2_loop rates d (pre @ a # b # post) = Inl e"
proof (induction pre arbitrary: d)
  case Nil
  show ?case
  proof (cases "validate_line rates d a")
    case (Inl e)
    then show ?thesis by simp
  next
    case (Inr res)
    obtain d1 l1 where res: "res = (d1, l1)" by (cases res)
    from validate_line_date [of rates d a d1 l1] Inr res assms(1) have d1: "d1 = da"
      by simp
    show ?thesis
    proof (cases "validate_line rates da b")
      case (Inl e)
      with Inr res d1 show ?thesis by simp
    next
      case r2: (Inr res2)
      obtain d2 l2 where "res2 = (d2, l2)" by (cases res2)
      with validate_line_date [of rates da b d2 l2] r2 assms(2,3) show ?thesis
        by simp
    qed
  qed
next
  case (Cons x pre)
  show ?case
  proof (cases "validate_line rates d x")
    case (Inl e)
    then show ?thesis by simp
  next
    case (Inr res)
    obtain d1 l1 where res: "res = (d1, l1)" by (cases res)
    from Cons.IH [of d1] obtain e where "pass2_loop rates d1 (pre @ a # b # post) = Inl e" ..
    with Inr res show ?thesis by simp
  qed
qed

lemma pass2_loop_length:
  "pass2_loop rates d t = Inr t' \<Longrightarrow> length t' = length t"
proof (induction t arbitrary: d t')
  case Nil
  then show ?case by simp
next
  case (Cons x t)
  from Cons.prems obtain d1 l1 t1 where "validate_line rates d x = Inr (d1, l1)"
    and r: "pass2_loop rates d1 t = Inr t1" and "t' = l1 # t1"
    by (auto split: sum.splits prod.splits)
  with Cons.IH [OF r] show ?case by simp
qed

text \<open>
  Claim C8. If validation fails at any entry, the script ends with that error in pass 2,
  before line 217 creates the cost queues, the reservation records, the reference ledger
  and the two totals: the outcome carries no ledger state and no entry has been
  reconciled. A ledger in which an entry is dated before the entry in front of it always
  ends so, whatever precedes and follows the two entries. Conversely, whenever the
  script reaches pass 3 (it prints its report, or an entry fails there), every entry of
  the data table has been validated before.
\<close>

theorem validation_precedes_reconciliation:
  "(\<forall>t e. pass1 ls = Inr t \<and> pass2 rates t = Inl e \<longrightarrow> analyzer rates ls = Pass2Failed e)
   \<and> (\<forall>pre a b post da db.
         pass1 ls = Inr (pre @ a # b # post) \<and> map_of a ''DATE'' = Some da
         \<and> map_of b ''DATE'' = Some db \<and> str_less db da \<longrightarrow>
         (\<exists>e. analyzer rates ls = Pass2Failed e))
   \<and> (\<forall>s. analyzer rates ls = Report s \<longrightarrow>
         (\<exists>t t'. pass1 ls = Inr t \<and> pass2 rates t = Inr t' \<and> length t' = length t
            \<and> pass3 t' = Inr s))
   \<and> (\<forall>e. analyzer rates ls = Pass3Failed e \<longrightarrow>
         (\<exists>t t'. pass1 ls = Inr t \<and> pass2 rates t = Inr t' \<and> length t' = length t
            \<and> pass3 t' = Inl e))"
proof (intro conjI allI impI)
  fix t e
  assume "pass1 ls = Inr t \<and> pass2 rates t = Inl e"
  then show "analyzer rates ls = Pass2Failed e" by (simp add: analyzer_def)
next
  fix pre a b post da db
  assume h: "pass1 ls = Inr (pre @ a # b # post) \<and> map_of a ''DATE'' = Some da
         \<and> map_of b ''DATE'' = Some db \<and> str_less db da"
  then obtain e where "pass2 rates (pre @ a # b # post) = Inl e"
    unfolding pass2_def using pass2_loop_out_of_order [of a da b db rates _ pre post] by blast
  with h have "analyzer rates ls = Pass2Failed e" by (simp add: analyzer_def)
  then show "\<exists>e. analyzer rates ls = Pass2Failed e" ..
next
  fix s
  assume "analyzer rates ls = Report s"
  then obtain t t' where "pass1 ls = Inr t" "pass2 rates t = Inr t'" "pass3 t' = Inr s"
    unfolding analyzer_def by (auto split: sum.splits)
  moreover from this have "length t' = length t"
    unfolding pass2_def by (simp add: pass2_loop_length)
  ultimately show "\<exists>t t'. pass1 ls = Inr t \<and> pass2 rates t = Inr t' \<and> length t' = length t
            \<and> pass3 t' = Inr s" by blast
next
  fix e
  assume "analyzer rates ls = Pass3Failed e"
  then obtain t t' where "pass1 ls = Inr t" "pass2 rates t = Inr t'" "pass3 t' = Inl e"
    unfolding analyzer_def by (auto split: sum.splits)
  moreover from this have "length t' = length t"
    unfolding pass2_def by (simp add: pass2_loop_length)
  ultimately show "\<exists>t t'. pass1 ls = Inr t \<and> pass2 rates t = Inr t' \<and> length t' = length t
            \<and> pass3 t' = Inl e" by blast
qed

theorem validation_precedes_reconciliation_witness:
  "pass1 [''INCOME: DATE 2024-01-02, TYPE sales, AMOUNT USD100, FEE 0%'',
          ''INCOME: DATE 2024-01-01, TYPE sales, AMOUNT USD100, FEE 0%'']
   = Inr ([] @ [(''ACTION'', ''INCOME''), (''DATE'', ''2024-01-02''), (''TYPE'', ''sales''),
                (''AMOUNT'', ''USD100''), (''FEE'', ''0%'')]
             # [(''ACTION'', ''INCOME''), (''DATE'', ''2024-01-01''), (''TYPE'', ''sales''),
                (''AMOUNT'', ''USD100''), (''FEE'', ''0%'')] # [])
   \<and> str_less ''2024-01-01'' ''2024-01-02''
   \<and> pass2 (\<lambda>d. Some Map.empty)
        [[(''ACTION'', ''INCOME''), (''DATE'', ''2024-01-02''), (''TYPE'', ''sales''),
          (''AMOUNT'', ''USD100''), (''FEE'', ''0%'')],
         [(''ACTION'', ''INCOME''), (''DATE'', ''2024-01-01''), (''TYPE'', ''sales''),
          (''AMOUNT'', ''USD100''), (''FEE'', ''0%'')]]
      = Inl NonChronological
   \<and> analyzer (\<lambda>d. Some Map.empty)
        [''INCOME: DATE 2024-01-02, TYPE sales, AMOUNT USD100, FEE 0%'',
         ''INCOME: DATE 2024-01-01, TYPE sales, AMOUNT USD100, FEE 0%'']
      = Pass2Failed NonChronological
   \<and> (\<exists>e. analyzer (\<lambda>d. Some Map.empty)
        [''INCOME: DATE 2024-01-02, TYPE sales, AMOUNT USD100, FEE 0%'',
         ''INCOME: DATE 2024-01-01, TYPE sales, AMOUNT USD100, FEE 0%'']
      = Pass2Failed e)
   \<and> analyzer (\<lambda>d. Some Map.empty)
        [''INCOME: DATE 2024-01-02, TYPE sales, AMOUNT USD100, FEE 0%'']
      = Report (ledger0\<lparr>ref_value := [([], 100)], cash_flow := 100, profit := 100\<rparr>)
   \<and> (\<exists>t t'. pass1 [''INCOME: DATE 2024-01-02, TYPE sales, AMOUNT USD100, FEE 0%''] = Inr t
         \<and> pass2 (\<lambda>d. Some Map.empty) t = Inr t' \<and> length t' = length t)
   \<and> analyzer (\<lambda>d. Some Map.empty)
        [''INCOME: DATE 2024-01-02, TYPE sales, AMOUNT USD100, FEE 0%, REF 5'']
      = Pass3Failed (KeyError ''5'')
   \<and> (\<exists>t t'. pass1 [''INCOME: DATE 2024-01-02, TYPE sales, AMOUNT USD100, FEE 0%, REF 5''] = Inr t
         \<and> pass2 (\<lambda>d. Some Map.empty) t = Inr t' \<and> length t' = length t)"
proof -
  let ?r = "\<lambda>d::string. Some (Map.empty :: string \<rightharpoonup> real)"
  let ?a = "[(''ACTION'', ''INCOME''), (''DATE'', ''2024-01-02''), (''TYPE'', ''sales''),
                (''AMOUNT'', ''USD100''), (''FEE'', ''0%'')]"
  let ?b = "[(''ACTION'', ''INCOME''), (''DATE'', ''2024-01-01''), (''TYPE'', ''sales''),
                (''AMOUNT'', ''USD100''), (''FEE'', ''0%'')]"
  let ?ls = "[''INCOME: DATE 2024-01-02, TYPE sales, AMOUNT USD100, FEE 0%'',
          ''INCOME: DATE 2024-01-01, TYPE sales, AMOUNT USD100, FEE 0%'']"
  let ?ok = "[''INCOME: DATE 2024-01-02, TYPE sales, AMOUNT USD100, FEE 0%'']"
  let ?ko = "[''INCOME: DATE 2024-01-02, TYPE sales, AMOUNT USD100, FEE 0%, REF 5'']"
  have p1: "pass1 ?ls = Inr [?a, ?b]" by code_simp
  then have p1': "pass1 ?ls = Inr ([] @ ?a # ?b # [])" by simp
  have lt: "str_less ''2024-01-01'' ''2024-01-02''" by code_simp
  have da: "map_of ?a ''DATE'' = Some ''2024-01-02''" by simp
  have db: "map_of ?b ''DATE'' = Some ''2024-01-01''" by simp
  have p2: "pass2 ?r [?a, ?b] = Inl NonChronological" by code_simp
  note T = validation_precedes_reconciliation [of ?ls ?r]
  from T [THEN conjunct1, rule_format, of "[?a, ?b]" NonChronological] p1 p2
  have A: "analyzer ?r ?ls = Pass2Failed NonChronological" by blast
  from T [THEN conjunct2, THEN conjunct1, rule_format,
      of "[]" ?a ?b "[]" "''2024-01-02''" "''2024-01-01''"] p1' da db lt
  have B: "\<exists>e. analyzer ?r ?ls = Pass2Failed e" by blast
  have ok: "analyzer ?r ?ok
      = Report (ledger0\<lparr>ref_value := [([], 100)], cash_flow := 100, profit := 100\<rparr>)"
    by code_simp
  from validation_precedes_reconciliation [of ?ok ?r, THEN conjunct2, THEN conjunct2,
      THEN conjunct1, rule_format, OF ok]
  have C: "\<exists>t t'. pass1 ?ok = Inr t \<and> pass2 ?r t = Inr t' \<and> length t' = length t"
    by blast
  have ko: "analyzer ?r ?ko = Pass3Failed (KeyError ''5'')" by code_simp
  from validation_precedes_reconciliation [of ?ko ?r, THEN conjunct2, THEN conjunct2,
      THEN conjunct2, rule_format, OF ko]
  have D: "\<exists>t t'. pass1 ?ko = Inr t \<and> pass2 ?r t = Inr t' \<and> length t' = length t"
    by blast
  from p1' lt p2 A B ok C ko D show ?thesis by (intro conjI)
qed

section \<open>The third pass in floating point\<close>

subsection \<open>Sums of whole numbers do not round\<close>





subsection \<open>The exact pass, read in floating point\<close>



lemma delete_apsnd: "AList.delete k (map (apsnd f) al) = map (apsnd f) (AList.delete k al)"
  by (induction al) auto




































































subsection \<open>Runs of the three ledgers\<close>




















subsection \<open>The profit identity in the arithmetic of the script\<close>







end
